theory Spec2Isabelle
  imports Main "HOL-Library.Word"
begin

section \<open>Results of a phase: success, returned error, runtime panic\<close>

text \<open>
  Every phase of the provider is a Go function \<^verbatim>\<open>func(...) error\<close> that mutates the
  cluster record (or the world outside the process) in place. The model passes the
  mutated state explicitly. A phase ends in one of three ways: it returns \<^verbatim>\<open>nil\<close>
  (\<open>Ok\<close> with the state it leaves), it returns an error (\<open>Failed\<close> with the error and the
  state it leaves: writes made before the \<^verbatim>\<open>return err\<close> stay), or the Go runtime
  panics (a nil pointer dereference, an index out of range).
\<close>

datatype error =
    External string
  | Wrap error string
  | NoAddress
  | ExecFailed string int string "error option"
  | ErrWaitTimeout

datatype panic = NilDereference | IndexOutOfRange

datatype 's outcome = Ok 's | Failed error 's | Panic panic

fun is_Ok :: "'s outcome \<Rightarrow> bool" where
  "is_Ok (Ok s) = True"
| "is_Ok (Failed e s) = False"
| "is_Ok (Panic p) = False"

fun left_state :: "'s outcome \<Rightarrow> 's option" where
  "left_state (Ok s) = Some s"
| "left_state (Failed e s) = Some s"
| "left_state (Panic p) = None"

section \<open>The cluster record\<close>

text \<open>
  The types of package \<^verbatim>\<open>devopsv1\<close> and \<^verbatim>\<open>common\<close> are not among the sources; the
  records below hold exactly the fields that \<^verbatim>\<open>handler.go\<close> reads and writes, with the
  shape the code uses them in: a field the code dereferences with \<^verbatim>\<open>*\<close> or compares
  with \<^verbatim>\<open>nil\<close> is an \<open>option\<close>. Where two Go structs have a field of the same name, the
  second one carries a prefix (\<open>StatusVersion\<close>, \<open>StatusServiceCIDR\<close>, \<open>DKE_VIP\<close>).
  \<^verbatim>\<open>AddressType\<close> and \<^verbatim>\<open>HookType\<close> are string types in Go: next to the constants
  the code names (and \<open>HookPreInstall\<close>, the key of the pre-install hook of the
  specification) there is a constructor for every other value. The \<^verbatim>\<open>int32\<close> fields
  (ports, capacities, the mask size) are integers: the code does no arithmetic on them.
\<close>

datatype AddressType = AddressReal | AddressAdvertise | AddressOther string

record ClusterAddress =
  Type :: AddressType
  Host :: string
  Port :: int

datatype HookType = HookPreInstall | HookPostInstall | HookCniInstall | HookOther string

record ClusterMachine =
  IP :: string
  Labels :: "(string \<times> string) list"
  Taints :: "string list"

record DKEHA =
  DKE_VIP :: string

record ThirdPartyHA =
  VIP :: string
  VPort :: int

record HA =
  DKEHA :: "DKEHA option"
  ThirdPartyHA :: "ThirdPartyHA option"

record ClusterFeature =
  HA :: "HA option"
  Hooks :: "HookType \<rightharpoonup> string"

record ClusterProperty =
  MaxClusterServiceNum :: "int option"
  MaxNodePodNum :: "int option"

record ClusterSpec =
  Version :: string
  ServiceCIDR :: "string option"
  ClusterCIDR :: string
  Properties :: ClusterProperty
  Machines :: "ClusterMachine list"
  Features :: ClusterFeature
  PublicAlternativeNames :: "string list"

record ClusterStatus =
  StatusVersion :: string
  StatusServiceCIDR :: string
  NodeCIDRMaskSize :: int
  DNSIP :: string
  Addresses :: "ClusterAddress list"

record ClusterCredential =
  Token :: "string option"
  BootstrapToken :: "string option"
  CertificateKey :: "string option"
  CACert :: "8 word list"
  CAKey :: "8 word list"

record Cluster =
  Name :: string
  Spec :: ClusterSpec
  Status :: ClusterStatus
  Credential :: ClusterCredential

section \<open>Package cluster: state derivation\<close>

text \<open>
  What the derivation steps call outside \<^verbatim>\<open>handler.go\<close> is a parameter of the model:
  the CIDR arithmetic of \<^verbatim>\<open>k8sutil\<close>, the constant \<^verbatim>\<open>constants.DNSIPIndex\<close>, the
  method \<^verbatim>\<open>AddAddress\<close> of the cluster, and the three sources of randomness
  (\<^verbatim>\<open>ksuid.New().String()\<close>, \<^verbatim>\<open>bootstraputil.GenerateBootstrapToken()\<close>,
  \<^verbatim>\<open>crypto/rand.Read\<close>). A field of \<open>derive_env\<close> holds what the call returns in one
  run of the derivation; \<open>GetIndexedIP\<close> stands for the call followed by \<^verbatim>\<open>ip.String()\<close>.
\<close>

record derive_env =
  GetNodeCIDRMaskSize :: "string \<Rightarrow> int \<Rightarrow> error + int"
  GetServiceCIDRAndNodeCIDRMaskSize :: "string \<Rightarrow> int \<Rightarrow> int \<Rightarrow> error + (string \<times> int)"
  GetIndexedIP :: "string \<Rightarrow> int \<Rightarrow> error + string"
  DNSIPIndex :: int
  AddAddress :: "AddressType \<Rightarrow> string \<Rightarrow> int \<Rightarrow> ClusterAddress list \<Rightarrow> ClusterAddress list"
  ksuid_New :: string
  GenerateBootstrapToken :: "error + string"
  rand_Read :: "nat \<Rightarrow> error + 8 word list"

definition completeK8sVersion :: "Cluster \<Rightarrow> Cluster outcome" where
  "completeK8sVersion cluster =
     Ok (cluster\<lparr>Status := (Status cluster)\<lparr>StatusVersion := Version (Spec cluster)\<rparr>\<rparr>)"

definition completeNetworking :: "derive_env \<Rightarrow> Cluster \<Rightarrow> Cluster outcome" where
  "completeNetworking env cluster =
     (case ServiceCIDR (Spec cluster) of
        Some serviceCIDR \<Rightarrow>
          (case MaxNodePodNum (Properties (Spec cluster)) of
             None \<Rightarrow> Panic NilDereference
           | Some pods \<Rightarrow>
               (case GetNodeCIDRMaskSize env (ClusterCIDR (Spec cluster)) pods of
                  Inl err \<Rightarrow> Failed (Wrap err ''GetNodeCIDRMaskSize error'') cluster
                | Inr nodeCIDRMaskSize \<Rightarrow>
                    Ok (cluster\<lparr>Status := (Status cluster)
                          \<lparr>StatusServiceCIDR := serviceCIDR,
                           NodeCIDRMaskSize := nodeCIDRMaskSize\<rparr>\<rparr>)))
      | None \<Rightarrow>
          (case MaxClusterServiceNum (Properties (Spec cluster)) of
             None \<Rightarrow> Panic NilDereference
           | Some services \<Rightarrow>
               (case MaxNodePodNum (Properties (Spec cluster)) of
                  None \<Rightarrow> Panic NilDereference
                | Some pods \<Rightarrow>
                    (case GetServiceCIDRAndNodeCIDRMaskSize env
                            (ClusterCIDR (Spec cluster)) services pods of
                       Inl err \<Rightarrow>
                         Failed (Wrap err ''GetServiceCIDRAndNodeCIDRMaskSize error'') cluster
                     | Inr (serviceCIDR, nodeCIDRMaskSize) \<Rightarrow>
                         Ok (cluster\<lparr>Status := (Status cluster)
                               \<lparr>StatusServiceCIDR := serviceCIDR,
                                NodeCIDRMaskSize := nodeCIDRMaskSize\<rparr>\<rparr>)))))"

definition completeDNS :: "derive_env \<Rightarrow> Cluster \<Rightarrow> Cluster outcome" where
  "completeDNS env cluster =
     (case GetIndexedIP env (StatusServiceCIDR (Status cluster)) (DNSIPIndex env) of
        Inl err \<Rightarrow> Failed (Wrap err ''get DNS IP error'') cluster
      | Inr ip \<Rightarrow> Ok (cluster\<lparr>Status := (Status cluster)\<lparr>DNSIP := ip\<rparr>\<rparr>))"

text \<open>
  \<^verbatim>\<open>cluster.AddAddress(type, host, port)\<close> registers an address in
  \<^verbatim>\<open>cluster.Status.Addresses\<close>; its body is not among the sources, so what it does to
  the address list is the parameter \<open>AddAddress\<close> of the environment.
\<close>

definition cluster_AddAddress ::
  "derive_env \<Rightarrow> AddressType \<Rightarrow> string \<Rightarrow> int \<Rightarrow> Cluster \<Rightarrow> Cluster" where
  "cluster_AddAddress env t h p cluster =
     cluster\<lparr>Status := (Status cluster)
       \<lparr>Addresses := AddAddress env t h p (Addresses (Status cluster))\<rparr>\<rparr>"

text \<open>
  The loop of \<^verbatim>\<open>completeAddresses\<close> over \<^verbatim>\<open>cluster.Spec.Machines\<close>: one call of
  \<^verbatim>\<open>AddAddress\<close> per machine, in the order of the slice.
\<close>

fun addMachines :: "derive_env \<Rightarrow> ClusterMachine list \<Rightarrow> Cluster \<Rightarrow> Cluster" where
  "addMachines env [] cluster = cluster"
| "addMachines env (m # ms) cluster =
     addMachines env ms (cluster_AddAddress env AddressReal (IP m) 6443 cluster)"

definition completeAddresses :: "derive_env \<Rightarrow> Cluster \<Rightarrow> Cluster outcome" where
  "completeAddresses env cluster =
     (let c1 = addMachines env (Machines (Spec cluster)) cluster in
      case HA (Features (Spec c1)) of
        None \<Rightarrow> Ok c1
      | Some ha \<Rightarrow>
          (let c2 = (case DKEHA ha of
                       None \<Rightarrow> c1
                     | Some dke \<Rightarrow>
                         cluster_AddAddress env AddressAdvertise (DKE_VIP dke) 6443 c1) in
           case ThirdPartyHA ha of
             None \<Rightarrow> Ok c2
           | Some tp \<Rightarrow>
               Ok (cluster_AddAddress env AddressAdvertise (VIP tp) (VPort tp) c2)))"

text \<open>\<^verbatim>\<open>hex.EncodeToString\<close> of the Go standard library: two lower-case digits a byte.\<close>

definition hexdigit :: "nat \<Rightarrow> char" where
  "hexdigit n = ''0123456789abcdef'' ! (n mod 16)"

fun hex_EncodeToString :: "8 word list \<Rightarrow> string" where
  "hex_EncodeToString [] = []"
| "hex_EncodeToString (b # bs) =
     hexdigit (unat b div 16) # hexdigit (unat b mod 16) # hex_EncodeToString bs"

definition completeCredential :: "derive_env \<Rightarrow> Cluster \<Rightarrow> Cluster outcome" where
  "completeCredential env cluster =
     (let c1 = cluster\<lparr>Credential := (Credential cluster)\<lparr>Token := Some (ksuid_New env)\<rparr>\<rparr> in
      case GenerateBootstrapToken env of
        Inl err \<Rightarrow> Failed err c1
      | Inr bootstrapToken \<Rightarrow>
          (let c2 = c1\<lparr>Credential := (Credential c1)\<lparr>BootstrapToken := Some bootstrapToken\<rparr>\<rparr> in
           case rand_Read env 32 of
             Inl err \<Rightarrow> Failed err c2
           | Inr certBytes \<Rightarrow>
               Ok (c2\<lparr>Credential := (Credential c2)
                     \<lparr>CertificateKey := Some (hex_EncodeToString certBytes)\<rparr>\<rparr>)))"

text \<open>
  The loop of \<^verbatim>\<open>EnsureClusterComplete\<close>: \<^verbatim>\<open>for _, f := range funcs\<close>, returning the
  first error.
\<close>

fun runSteps :: "('s \<Rightarrow> 's outcome) list \<Rightarrow> 's \<Rightarrow> 's outcome" where
  "runSteps [] s = Ok s"
| "runSteps (f # fs) s =
     (case f s of
        Ok s' \<Rightarrow> runSteps fs s'
      | Failed err s' \<Rightarrow> Failed err s'
      | Panic p \<Rightarrow> Panic p)"

definition funcs :: "derive_env \<Rightarrow> (Cluster \<Rightarrow> Cluster outcome) list" where
  "funcs env =
     [completeK8sVersion,
      completeNetworking env,
      completeDNS env,
      completeAddresses env,
      completeCredential env]"

definition EnsureClusterComplete :: "derive_env \<Rightarrow> Cluster \<Rightarrow> Cluster outcome" where
  "EnsureClusterComplete env cluster = runSteps (funcs env) cluster"

section \<open>The world outside the process\<close>

text \<open>
  The remaining phases act on a live cluster and on remote hosts. The type \<open>'w\<close> is the
  state of that world, \<open>'ssh\<close> a remote-execution handle, \<open>'ctx\<close> the client context
  of a target cluster and \<open>'obj\<close> a declarative object. Every collaborator that is not in
  \<^verbatim>\<open>handler.go\<close> is a field of \<open>provider_env\<close>: a call that can change the world takes
  the world and returns the new one with its result. \<open>delivered\<close> is the number of ticks
  the poller of a bounded wait hands out before its timeout closes the channel.
\<close>

text \<open>
  \<open>SpecMachine\<close> is \<^verbatim>\<open>machine.Spec.Machine\<close>. A node and its conditions are the
  types of \<^verbatim>\<open>k8s.io/api/core/v1\<close>, whose condition type and status are strings with the
  constants \<^verbatim>\<open>NodeReady = "Ready"\<close> and \<^verbatim>\<open>ConditionTrue = "True"\<close>.
  \<open>kubeconfig_Option\<close> is \<^verbatim>\<open>kubeconfig.Option\<close> with the four fields the code sets.
\<close>

record Machine =
  SpecMachine :: ClusterMachine

record NodeCondition =
  CondType :: string
  CondStatus :: string

record Node =
  Conditions :: "NodeCondition list"

definition NodeReady :: string where
  "NodeReady = ''Ready''"

definition ConditionTrue :: string where
  "ConditionTrue = ''True''"

record kubeconfig_Option =
  MasterEndpoint :: string
  ClusterName :: string
  OptionCACert :: "8 word list"
  OptionToken :: string

record ('ssh, 'ctx, 'obj, 'w) provider_env =
  ClusterManager_Get :: "string \<Rightarrow> 'w \<Rightarrow> error + 'ctx"
  BuildKubeproxyAddon :: "Cluster \<Rightarrow> error + 'obj list"
  BuildCoreDNSAddon :: "Cluster \<Rightarrow> error + 'obj list"
  BuildFlannelAddon :: "Cluster \<Rightarrow> error + 'obj list"
  BuildMetricsServerAddon :: "Cluster \<Rightarrow> error + 'obj list"
  Reconcile :: "'ctx \<Rightarrow> 'obj \<Rightarrow> 'w \<Rightarrow> error option \<times> 'w"
  SSH :: "Machine \<Rightarrow> error + 'ssh"
  Exec :: "'ssh \<Rightarrow> string \<Rightarrow> 'w \<Rightarrow> (string \<times> string \<times> int \<times> error option) \<times> 'w"
  BuildApiserverEndpoint :: "string \<Rightarrow> int \<Rightarrow> string"
  GetBindPort :: "Cluster \<Rightarrow> int"
  InstallNode :: "'ssh \<Rightarrow> kubeconfig_Option \<Rightarrow> 'w \<Rightarrow> error option \<times> 'w"
  JoinNodePhase :: "'ssh \<Rightarrow> Cluster \<Rightarrow> string \<Rightarrow> bool \<Rightarrow> 'w \<Rightarrow> error option \<times> 'w"
  MarkNode ::
    "'ctx \<Rightarrow> string \<Rightarrow> (string \<times> string) list \<Rightarrow> string list \<Rightarrow> 'w \<Rightarrow> error option \<times> 'w"
  Nodes_Get :: "'ctx \<Rightarrow> string \<Rightarrow> 'w \<Rightarrow> (error + Node) \<times> 'w"
  delivered :: nat

section \<open>Package cluster: addons\<close>

text \<open>
  The loop \<^verbatim>\<open>for _, obj := range objs\<close> around \<^verbatim>\<open>k8sutil.Reconcile\<close>, shared by the
  addon phases; \<^verbatim>\<open>errors.Wrapf(err, format, err)\<close> is \<open>Wrap\<close> with the format string.
\<close>

fun reconcileObjs ::
  "('ssh, 'ctx, 'obj, 'w) provider_env \<Rightarrow> 'ctx \<Rightarrow> 'obj list \<Rightarrow> 'w \<Rightarrow> 'w outcome" where
  "reconcileObjs env ctx [] w = Ok w"
| "reconcileObjs env ctx (obj # objs) w =
     (case Reconcile env ctx obj w of
        (Some err, w') \<Rightarrow> Failed (Wrap err ''Reconcile  err: %v'') w'
      | (None, w') \<Rightarrow> reconcileObjs env ctx objs w')"

definition EnsureAddons ::
  "('ssh, 'ctx, 'obj, 'w) provider_env \<Rightarrow> Cluster \<Rightarrow> 'w \<Rightarrow> 'w outcome" where
  "EnsureAddons env c w =
     (case ClusterManager_Get env (Name c) w of
        Inl err \<Rightarrow> Ok w
      | Inr clusterCtx \<Rightarrow>
          (case BuildKubeproxyAddon env c of
             Inl err \<Rightarrow> Failed (Wrap err ''build kube-proxy err: %v'') w
           | Inr kubeproxyObjs \<Rightarrow>
               (case reconcileObjs env clusterCtx kubeproxyObjs w of
                  Failed err w1 \<Rightarrow> Failed err w1
                | Panic p \<Rightarrow> Panic p
                | Ok w1 \<Rightarrow>
                    (case BuildCoreDNSAddon env c of
                       Inl err \<Rightarrow> Failed (Wrap err ''build kube-proxy err: %v'') w1
                     | Inr corednsObjs \<Rightarrow> reconcileObjs env clusterCtx corednsObjs w1))))"

definition EnsureFlannel ::
  "('ssh, 'ctx, 'obj, 'w) provider_env \<Rightarrow> Cluster \<Rightarrow> 'w \<Rightarrow> 'w outcome" where
  "EnsureFlannel env c w =
     (case ClusterManager_Get env (Name c) w of
        Inl err \<Rightarrow> Ok w
      | Inr clusterCtx \<Rightarrow>
          (case BuildFlannelAddon env c of
             Inl err \<Rightarrow> Failed (Wrap err ''build flannel err: %v'') w
           | Inr objs \<Rightarrow> reconcileObjs env clusterCtx objs w))"

definition EnsureMetricsServer ::
  "('ssh, 'ctx, 'obj, 'w) provider_env \<Rightarrow> Cluster \<Rightarrow> 'w \<Rightarrow> 'w outcome" where
  "EnsureMetricsServer env c w =
     (case ClusterManager_Get env (Name c) w of
        Inl err \<Rightarrow> Ok w
      | Inr clusterCtx \<Rightarrow>
          (case BuildMetricsServerAddon env c of
             Inl err \<Rightarrow> Failed (Wrap err ''build metrics-server err: %v'') w
           | Inr objs \<Rightarrow> reconcileObjs env clusterCtx objs w))"

section \<open>Package machine: remote-execution phases\<close>

text \<open>
  \<^verbatim>\<open>cluster.Spec.Features.Hooks[key]\<close>: a Go map read gives the zero value, the empty
  string, for a key that is absent.
\<close>

definition hookOf :: "(HookType \<rightharpoonup> string) \<Rightarrow> HookType \<Rightarrow> string" where
  "hookOf hooks key = (case hooks key of None \<Rightarrow> [] | Some hook \<Rightarrow> hook)"

text \<open>\<^verbatim>\<open>strings.Split(s, sep)\<close> for a separator of one character.\<close>

fun strings_Split :: "string \<Rightarrow> char \<Rightarrow> string list" where
  "strings_Split [] sep = [[]]"
| "strings_Split (ch # rest) sep =
     (if ch = sep then [] # strings_Split rest sep
      else (case strings_Split rest sep of
              [] \<Rightarrow> [[ch]]
            | part # parts \<Rightarrow> (ch # part) # parts))"

text \<open>
  The body shared, letter for letter, by \<^verbatim>\<open>EnsurePreInstallHook\<close> and
  \<^verbatim>\<open>EnsurePostInstallHook\<close> once \<open>hook\<close> is read: the result of the \<^verbatim>\<open>chmod\<close> is
  dropped, the hook's own result decides. \<^verbatim>\<open>fmt.Errorf("exec %q failed:exit %d:stderr
  %s:error %s", hook, exit, stderr, err)\<close> is the error \<open>ExecFailed hook exit stderr err\<close>.
\<close>

definition runHook ::
  "('ssh, 'ctx, 'obj, 'w) provider_env \<Rightarrow> Machine \<Rightarrow> string \<Rightarrow> 'w \<Rightarrow> 'w outcome" where
  "runHook env machine hook w =
     (if hook = [] then Ok w
      else
        (case SSH env machine of
           Inl err \<Rightarrow> Failed err w
         | Inr machineSSH \<Rightarrow>
             (case strings_Split hook CHR '' '' of
                [] \<Rightarrow> Panic IndexOutOfRange
              | cmd # others \<Rightarrow>
                  (let w1 = snd (Exec env machineSSH (''chmod +x '' @ cmd) w) in
                   case Exec env machineSSH hook w1 of
                     ((out, stderr, exit, err), w2) \<Rightarrow>
                       (if err \<noteq> None \<or> exit \<noteq> 0
                        then Failed (ExecFailed hook exit stderr err) w2
                        else Ok w2)))))"

definition EnsurePreInstallHook ::
  "('ssh, 'ctx, 'obj, 'w) provider_env \<Rightarrow> Machine \<Rightarrow> Cluster \<Rightarrow> 'w \<Rightarrow> 'w outcome" where
  "EnsurePreInstallHook env machine cluster w =
     runHook env machine (hookOf (Hooks (Features (Spec cluster))) HookPostInstall) w"

definition EnsurePostInstallHook ::
  "('ssh, 'ctx, 'obj, 'w) provider_env \<Rightarrow> Machine \<Rightarrow> Cluster \<Rightarrow> 'w \<Rightarrow> 'w outcome" where
  "EnsurePostInstallHook env machine cluster w =
     runHook env machine (hookOf (Hooks (Features (Spec cluster))) HookPostInstall) w"

text \<open>
  \<^verbatim>\<open>EnsureKubeconfig\<close> of package machine. The pointers it follows without a check
  (\<^verbatim>\<open>Features.HA\<close>, \<^verbatim>\<open>HA.ThirdPartyHA\<close>, \<^verbatim>\<open>ClusterCredential.Token\<close>) panic
  when nil.
\<close>

definition EnsureKubeconfig ::
  "('ssh, 'ctx, 'obj, 'w) provider_env \<Rightarrow> Machine \<Rightarrow> Cluster \<Rightarrow> 'w \<Rightarrow> 'w outcome" where
  "EnsureKubeconfig env machine c w =
     (case SSH env machine of
        Inl err \<Rightarrow> Failed err w
      | Inr machineSSH \<Rightarrow>
          (case HA (Features (Spec c)) of
             None \<Rightarrow> Panic NilDereference
           | Some ha \<Rightarrow>
               (case ThirdPartyHA ha of
                  None \<Rightarrow> Panic NilDereference
                | Some tp \<Rightarrow>
                    (let apiserver = BuildApiserverEndpoint env (VIP tp) (GetBindPort env c) in
                     case Token (Credential c) of
                       None \<Rightarrow> Panic NilDereference
                     | Some token \<Rightarrow>
                         (case InstallNode env machineSSH
                                 \<lparr>MasterEndpoint = apiserver,
                                  ClusterName = Name c,
                                  OptionCACert = CACert (Credential c),
                                  OptionToken = token\<rparr> w of
                            (Some err, w') \<Rightarrow> Failed err w'
                          | (None, w') \<Rightarrow> Ok w')))))"

definition EnsureJoinNode ::
  "('ssh, 'ctx, 'obj, 'w) provider_env \<Rightarrow> Machine \<Rightarrow> Cluster \<Rightarrow> 'w \<Rightarrow> 'w outcome" where
  "EnsureJoinNode env machine c w =
     (case SSH env machine of
        Inl err \<Rightarrow> Failed err w
      | Inr sh \<Rightarrow>
          (case PublicAlternativeNames (Spec c) of
             [] \<Rightarrow> Panic IndexOutOfRange
           | name0 # names \<Rightarrow>
               (let apiserver = BuildApiserverEndpoint env name0 (GetBindPort env c) in
                case JoinNodePhase env sh c apiserver False w of
                  (Some err, w') \<Rightarrow> Failed err w'
                | (None, w') \<Rightarrow> Ok w')))"

section \<open>Package machine: control-plane phases\<close>

definition EnsureMarkNode ::
  "('ssh, 'ctx, 'obj, 'w) provider_env \<Rightarrow> Machine \<Rightarrow> Cluster \<Rightarrow> 'w \<Rightarrow> 'w outcome" where
  "EnsureMarkNode env machine c w =
     (case ClusterManager_Get env (Name c) w of
        Inl err \<Rightarrow> Ok w
      | Inr clusterCtx \<Rightarrow>
          (case MarkNode env clusterCtx (IP (SpecMachine machine))
                  (Labels (SpecMachine machine)) (Taints (SpecMachine machine)) w of
             (Some err, w') \<Rightarrow> Failed err w'
           | (None, w') \<Rightarrow> Ok w'))"

text \<open>
  \<^verbatim>\<open>wait.PollImmediate(interval, timeout, condition)\<close> of the Kubernetes client library:
  the condition is checked at once; after that a poller sends a tick every \<open>interval\<close>
  and closes its channel when \<open>timeout\<close> has passed. \<^verbatim>\<open>WaitFor\<close> checks the condition
  on every tick it receives and once more when the channel is closed, and then gives up
  with \<^verbatim>\<open>ErrWaitTimeout\<close>. Time enters the model only as the number of ticks left:
  at most \<open>timeout div interval\<close> of them are sent, of which the loop receives
  \<open>delivered\<close> ones. An error of the condition ends the wait with that error.
\<close>

fun WaitFor :: "nat \<Rightarrow> ('w \<Rightarrow> (bool \<times> error option) \<times> 'w) \<Rightarrow> 'w \<Rightarrow> 'w outcome" where
  "WaitFor 0 condition w =
     (case condition w of
        ((ok, Some err), w') \<Rightarrow> Failed err w'
      | ((ok, None), w') \<Rightarrow> (if ok then Ok w' else Failed ErrWaitTimeout w'))"
| "WaitFor (Suc n) condition w =
     (case condition w of
        ((ok, Some err), w') \<Rightarrow> Failed err w'
      | ((ok, None), w') \<Rightarrow> (if ok then Ok w' else WaitFor n condition w'))"

definition PollImmediate ::
  "nat \<Rightarrow> nat \<Rightarrow> nat \<Rightarrow> ('w \<Rightarrow> (bool \<times> error option) \<times> 'w) \<Rightarrow> 'w \<Rightarrow> 'w outcome" where
  "PollImmediate ticks interval timeout condition w =
     (case condition w of
        ((ok, Some err), w') \<Rightarrow> Failed err w'
      | ((ok, None), w') \<Rightarrow>
          (if ok then Ok w'
           else WaitFor (min ticks (timeout div interval)) condition w'))"

text \<open>The loop over \<^verbatim>\<open>node.Status.Conditions\<close> inside the condition function.\<close>

fun readyIn :: "NodeCondition list \<Rightarrow> bool" where
  "readyIn [] = False"
| "readyIn (one # rest) =
     (if CondType one = NodeReady \<and> CondStatus one = ConditionTrue then True
      else readyIn rest)"

definition nodeReadyCondition ::
  "('ssh, 'ctx, 'obj, 'w) provider_env \<Rightarrow> 'ctx \<Rightarrow> Machine \<Rightarrow> 'w \<Rightarrow> (bool \<times> error option) \<times> 'w" where
  "nodeReadyCondition env clusterCtx machine w =
     (case Nodes_Get env clusterCtx (IP (SpecMachine machine)) w of
        (Inl err, w') \<Rightarrow> ((False, None), w')
      | (Inr node, w') \<Rightarrow> ((readyIn (Conditions node), None), w'))"

definition EnsureNodeReady ::
  "('ssh, 'ctx, 'obj, 'w) provider_env \<Rightarrow> Machine \<Rightarrow> Cluster \<Rightarrow> 'w \<Rightarrow> 'w outcome" where
  "EnsureNodeReady env machine c w =
     (case ClusterManager_Get env (Name c) w of
        Inl err \<Rightarrow> Ok w
      | Inr clusterCtx \<Rightarrow>
          PollImmediate (delivered env) 5 300 (nodeReadyCondition env clusterCtx machine) w)"

section \<open>Endpoint selection\<close>

text \<open>\<^verbatim>\<open>%d\<close> of \<^verbatim>\<open>fmt.Sprintf\<close>: a signed decimal numeral.\<close>

function decimal :: "nat \<Rightarrow> string" where
  "decimal n =
     (if n < 10 then [''0123456789'' ! n]
      else decimal (n div 10) @ [''0123456789'' ! (n mod 10)])"
  by pat_completeness auto
termination
  by (relation "measure id") auto

declare decimal.simps [simp del]

definition fmt_d :: "int \<Rightarrow> string" where
  "fmt_d i = (if i < 0 then CHR ''-'' # decimal (nat (- i)) else decimal (nat i))"

text \<open>
  \<^verbatim>\<open>GetMasterEndpoint\<close> collects \<^bold>\<open>pointers\<close>: \<^verbatim>\<open>advertise = append(advertise, &one)\<close>
  stores the address of the loop variable \<^verbatim>\<open>one\<close>, not a copy of the element. What the
  pointers refer to after the loop depends on where the loop variable lives, so the model
  has an explicit store from locations to addresses. In Go before 1.22
  \<^verbatim>\<open>for _, one := range addresses\<close> declares a single variable for the whole loop
  (\<open>SharedLoopVar\<close>: every iteration writes location 0); from Go 1.22 on, for a module
  whose \<^verbatim>\<open>go.mod\<close> asks for that language version, every iteration has a variable of
  its own (\<open>PerIterationLoopVar\<close>: iteration \<open>k\<close> writes location \<open>k\<close>). The
  repository is of the first kind: it builds against \<^verbatim>\<open>k8s.io/klog\<close> version 1 and
  the client libraries of 2020, four years before Go 1.22. \<open>GetMasterEndpoint\<close> is
  therefore the body under \<open>SharedLoopVar\<close>; the body under the other reading is kept
  for comparison.
\<close>

datatype loopvar = SharedLoopVar | PerIterationLoopVar

record endpoint_locals =
  store :: "nat \<rightharpoonup> ClusterAddress"
  advertise :: "nat list"
  internal :: "nat list"

definition loopvar_location :: "loopvar \<Rightarrow> nat \<Rightarrow> nat" where
  "loopvar_location sem k = (case sem of SharedLoopVar \<Rightarrow> 0 | PerIterationLoopVar \<Rightarrow> k)"

definition collect_step :: "nat \<Rightarrow> ClusterAddress \<Rightarrow> endpoint_locals \<Rightarrow> endpoint_locals" where
  "collect_step one_ptr element st =
     (let st1 = st\<lparr>store := (store st)(one_ptr \<mapsto> element)\<rparr>;
          st2 = (if Type element = AddressAdvertise
                 then st1\<lparr>advertise := advertise st1 @ [one_ptr]\<rparr> else st1)
      in if Type element = AddressReal
         then st2\<lparr>internal := internal st2 @ [one_ptr]\<rparr> else st2)"

fun collect :: "loopvar \<Rightarrow> nat \<Rightarrow> ClusterAddress list \<Rightarrow> endpoint_locals \<Rightarrow> endpoint_locals" where
  "collect sem k [] st = st"
| "collect sem k (element # rest) st =
     collect sem (Suc k) rest (collect_step (loopvar_location sem k) element st)"

text \<open>
  \<^verbatim>\<open>rand.Intn(n)\<close> returns a number below \<open>n\<close>; the injected generator \<open>Intn\<close> is
  reduced modulo \<open>n\<close> so that every generator keeps that contract.
\<close>

definition pick :: "(nat \<Rightarrow> nat) \<Rightarrow> nat list \<Rightarrow> nat" where
  "pick Intn ptrs = ptrs ! (Intn (length ptrs) mod length ptrs)"

definition endpoint_of :: "ClusterAddress \<Rightarrow> string" where
  "endpoint_of address = ''https://'' @ Host address @ '':'' @ fmt_d (Port address)"

definition GetMasterEndpoint_in ::
  "loopvar \<Rightarrow> (nat \<Rightarrow> nat) \<Rightarrow> ClusterAddress list \<Rightarrow> string outcome" where
  "GetMasterEndpoint_in sem Intn addresses =
     (let st = collect sem 0 addresses \<lparr>store = Map.empty, advertise = [], internal = []\<rparr>;
          address = (if advertise st \<noteq> [] then Some (pick Intn (advertise st))
                     else if internal st \<noteq> [] then Some (pick Intn (internal st))
                     else None)
      in case address of
           None \<Rightarrow> Failed NoAddress []
         | Some ptr \<Rightarrow>
             (case store st ptr of
                None \<Rightarrow> Panic NilDereference
              | Some target \<Rightarrow> Ok (endpoint_of target)))"

definition GetMasterEndpoint :: "(nat \<Rightarrow> nat) \<Rightarrow> ClusterAddress list \<Rightarrow> string outcome" where
  "GetMasterEndpoint Intn addresses = GetMasterEndpoint_in SharedLoopVar Intn addresses"

section \<open>Notions the properties are stated with\<close>

text \<open>
  Modelled from the spec: \<^verbatim>\<open>AddAddress\<close>, the method of the cluster record that
  \<^verbatim>\<open>completeAddresses\<close> calls, is not among the sources. The specification says
  that the step registers an address; this reading of it appends the address to the list.
  It instantiates the parameter \<open>AddAddress\<close> in the examples and in
  \<open>completeAddresses_appends\<close>; no other statement depends on it.
\<close>

definition AddAddress_append ::
  "AddressType \<Rightarrow> string \<Rightarrow> int \<Rightarrow> ClusterAddress list \<Rightarrow> ClusterAddress list" where
  "AddAddress_append t h p addresses = addresses @ [\<lparr>Type = t, Host = h, Port = p\<rparr>]"

text \<open>
  The registrations the specification asks of the address step, in its own words: one
  Real address at port 6443 for every declared machine, then one Advertise address for
  every configured HA mechanism. \<open>register\<close> is one call of \<^verbatim>\<open>AddAddress\<close>.
\<close>

definition register ::
  "derive_env \<Rightarrow> ClusterAddress list \<Rightarrow> ClusterAddress \<Rightarrow> ClusterAddress list" where
  "register env addresses a = AddAddress env (Type a) (Host a) (Port a) addresses"

definition realAddresses :: "Cluster \<Rightarrow> ClusterAddress list" where
  "realAddresses cluster =
     map (\<lambda>m. \<lparr>Type = AddressReal, Host = IP m, Port = 6443\<rparr>) (Machines (Spec cluster))"

definition advertiseAddresses :: "Cluster \<Rightarrow> ClusterAddress list" where
  "advertiseAddresses cluster =
     (case HA (Features (Spec cluster)) of
        None \<Rightarrow> []
      | Some ha \<Rightarrow>
          (case DKEHA ha of
             None \<Rightarrow> []
           | Some dke \<Rightarrow> [\<lparr>Type = AddressAdvertise, Host = DKE_VIP dke, Port = 6443\<rparr>])
          @ (case ThirdPartyHA ha of
               None \<Rightarrow> []
             | Some tp \<Rightarrow> [\<lparr>Type = AddressAdvertise, Host = VIP tp, Port = VPort tp\<rparr>]))"

text \<open>
  The node-ready wait reads the node once per poll. \<open>node_step\<close> is the world one read
  later, \<open>world_after i\<close> the world after \<open>i\<close> polls, and \<open>reportsReady\<close> says that the
  node read in a world carries a condition of type Ready with status True.
\<close>

definition node_step ::
  "('ssh, 'ctx, 'obj, 'w) provider_env \<Rightarrow> 'ctx \<Rightarrow> Machine \<Rightarrow> 'w \<Rightarrow> 'w" where
  "node_step env clusterCtx machine w =
     snd (Nodes_Get env clusterCtx (IP (SpecMachine machine)) w)"

definition world_after ::
  "('ssh, 'ctx, 'obj, 'w) provider_env \<Rightarrow> 'ctx \<Rightarrow> Machine \<Rightarrow> nat \<Rightarrow> 'w \<Rightarrow> 'w" where
  "world_after env clusterCtx machine i w = (node_step env clusterCtx machine ^^ i) w"

definition reportsReady ::
  "('ssh, 'ctx, 'obj, 'w) provider_env \<Rightarrow> 'ctx \<Rightarrow> Machine \<Rightarrow> 'w \<Rightarrow> bool" where
  "reportsReady env clusterCtx machine w =
     (case fst (Nodes_Get env clusterCtx (IP (SpecMachine machine)) w) of
        Inl err \<Rightarrow> False
      | Inr node \<Rightarrow>
          (\<exists>one \<in> set (Conditions node).
             CondType one = NodeReady \<and> CondStatus one = ConditionTrue))"

section \<open>Concrete clusters and environments\<close>

text \<open>
  The scenario of the specification: cluster CIDR 10.0.0.0/16, 4096 services, 64 pods a
  node, three machines, no HA. \<open>demo_env token\<close> is an environment whose CIDR helpers
  succeed and whose identifier generator returns \<open>token\<close>.
\<close>

definition demo_env :: "string \<Rightarrow> derive_env" where
  "demo_env token =
     \<lparr>GetNodeCIDRMaskSize = (\<lambda>cidr pods. Inr 26),
      GetServiceCIDRAndNodeCIDRMaskSize = (\<lambda>cidr services pods. Inr (''10.0.240.0/20'', 26)),
      GetIndexedIP = (\<lambda>cidr index. Inr ''10.0.240.10''),
      DNSIPIndex = 10,
      AddAddress = AddAddress_append,
      ksuid_New = token,
      GenerateBootstrapToken = Inr ''abcdef.0123456789abcdef'',
      rand_Read = (\<lambda>n. Inr (replicate n 171))\<rparr>"

definition dns_failing_env :: derive_env where
  "dns_failing_env =
     (demo_env ''tokenA'')\<lparr>GetIndexedIP := (\<lambda>cidr index. Inl (External ''index out of range''))\<rparr>"

definition cidr_failing_env :: derive_env where
  "cidr_failing_env =
     (demo_env ''tokenA'')
       \<lparr>GetNodeCIDRMaskSize := (\<lambda>cidr pods. Inl (External ''mask size too big'')),
        GetServiceCIDRAndNodeCIDRMaskSize :=
          (\<lambda>cidr services pods. Inl (External ''mask size too big''))\<rparr>"

definition demo_cluster :: Cluster where
  "demo_cluster =
     \<lparr>Name = ''demo'',
      Spec = \<lparr>Version = ''v1.18.2'', ServiceCIDR = None, ClusterCIDR = ''10.0.0.0/16'',
              Properties = \<lparr>MaxClusterServiceNum = Some 4096, MaxNodePodNum = Some 64\<rparr>,
              Machines = [\<lparr>IP = ''10.1.0.1'', Labels = [], Taints = []\<rparr>,
                          \<lparr>IP = ''10.1.0.2'', Labels = [], Taints = []\<rparr>,
                          \<lparr>IP = ''10.1.0.3'', Labels = [], Taints = []\<rparr>],
              Features = \<lparr>HA = None, Hooks = Map.empty\<rparr>,
              PublicAlternativeNames = []\<rparr>,
      Status = \<lparr>StatusVersion = [], StatusServiceCIDR = [], NodeCIDRMaskSize = 0,
                DNSIP = [], Addresses = []\<rparr>,
      Credential = \<lparr>Token = None, BootstrapToken = None, CertificateKey = None,
                    CACert = [], CAKey = []\<rparr>\<rparr>"

definition explicit_cidr_cluster :: Cluster where
  "explicit_cidr_cluster =
     demo_cluster\<lparr>Spec := (Spec demo_cluster)\<lparr>ServiceCIDR := Some ''172.16.0.0/16''\<rparr>\<rparr>"

definition ha_cluster :: Cluster where
  "ha_cluster =
     demo_cluster\<lparr>Spec := (Spec demo_cluster)
       \<lparr>Features := \<lparr>HA = Some \<lparr>DKEHA = Some \<lparr>DKE_VIP = ''10.1.0.100''\<rparr>,
                                ThirdPartyHA = Some \<lparr>VIP = ''10.9.9.9'', VPort = 443\<rparr>\<rparr>,
                    Hooks = Map.empty\<rparr>\<rparr>\<rparr>"

text \<open>The record \<open>demo_cluster\<close> after one successful derivation under \<open>demo_env ''tokenA''\<close>.\<close>

definition derived_cluster :: Cluster where
  "derived_cluster =
     demo_cluster
       \<lparr>Status := \<lparr>StatusVersion = ''v1.18.2'', StatusServiceCIDR = ''10.0.240.0/20'',
           NodeCIDRMaskSize = 26, DNSIP = ''10.0.240.10'',
           Addresses = realAddresses demo_cluster\<rparr>,
        Credential := \<lparr>Token = Some ''tokenA'',
           BootstrapToken = Some ''abcdef.0123456789abcdef'',
           CertificateKey = Some (hex_EncodeToString (replicate 32 171)),
           CACert = [], CAKey = []\<rparr>\<rparr>"

text \<open>
  A world that records what is done to it: every collaborator that changes the target
  cluster or a remote host appends an event. \<open>recording_env lookup ssh remote node ticks\<close>
  takes the client lookup, the handle factory, the result of a remote command, the node
  read at the \<open>n\<close>-th event and the ticks received.
\<close>

datatype event =
    Reconciled string
  | Executed string
  | Installed kubeconfig_Option
  | Joined string
  | Marked string
  | Polled string

definition recording_env ::
  "(string \<Rightarrow> error + unit) \<Rightarrow> (Machine \<Rightarrow> error + string) \<Rightarrow>
   (string \<Rightarrow> string \<times> string \<times> int \<times> error option) \<Rightarrow> (nat \<Rightarrow> Node) \<Rightarrow> nat \<Rightarrow>
   (string, unit, string, event list) provider_env" where
  "recording_env lookup ssh remote node ticks =
     \<lparr>ClusterManager_Get = (\<lambda>name w. lookup name),
      BuildKubeproxyAddon = (\<lambda>c. Inr [''kube-proxy'']),
      BuildCoreDNSAddon = (\<lambda>c. Inr [''coredns'']),
      BuildFlannelAddon = (\<lambda>c. Inr [''flannel'']),
      BuildMetricsServerAddon = (\<lambda>c. Inr [''metrics-server'']),
      Reconcile = (\<lambda>ctx obj w. (None, w @ [Reconciled obj])),
      SSH = ssh,
      Exec = (\<lambda>sh cmd w. (remote cmd, w @ [Executed cmd])),
      BuildApiserverEndpoint = (\<lambda>host port. ''https://'' @ host @ '':'' @ fmt_d port),
      GetBindPort = (\<lambda>c. 6443),
      InstallNode = (\<lambda>sh option w. (None, w @ [Installed option])),
      JoinNodePhase = (\<lambda>sh c apiserver rejoin w. (None, w @ [Joined apiserver])),
      MarkNode = (\<lambda>ctx ip labels taints w. (None, w @ [Marked ip])),
      Nodes_Get = (\<lambda>ctx name w. (Inr (node (length w)), w @ [Polled name])),
      delivered = ticks\<rparr>"

definition demo_machine :: Machine where
  "demo_machine = \<lparr>SpecMachine = \<lparr>IP = ''10.1.0.1'', Labels = [], Taints = []\<rparr>\<rparr>"

text \<open>
  A hosted cluster with third-party HA, a pre-install hook and no post-install hook, no
  public alternative name, and a cluster token that differs from its bootstrap token.
\<close>

definition hosted_cluster :: Cluster where
  "hosted_cluster =
     \<lparr>Name = ''demo'',
      Spec = \<lparr>Version = ''v1.18.2'', ServiceCIDR = None, ClusterCIDR = ''10.0.0.0/16'',
              Properties = \<lparr>MaxClusterServiceNum = Some 4096, MaxNodePodNum = Some 64\<rparr>,
              Machines = [\<lparr>IP = ''10.1.0.1'', Labels = [], Taints = []\<rparr>],
              Features = \<lparr>HA = Some \<lparr>DKEHA = None,
                                       ThirdPartyHA = Some \<lparr>VIP = ''10.9.9.9'', VPort = 443\<rparr>\<rparr>,
                          Hooks = [HookPreInstall \<mapsto> ''/opt/pre.sh --now'']\<rparr>,
              PublicAlternativeNames = []\<rparr>,
      Status = \<lparr>StatusVersion = ''v1.18.2'', StatusServiceCIDR = ''10.0.240.0/20'',
                NodeCIDRMaskSize = 26, DNSIP = ''10.0.240.10'', Addresses = []\<rparr>,
      Credential = \<lparr>Token = Some ''cluster-token'',
                    BootstrapToken = Some ''abcdef.0123456789abcdef'',
                    CertificateKey = None, CACert = [1, 2, 3], CAKey = []\<rparr>\<rparr>"

definition not_found :: "string \<Rightarrow> error + unit" where
  "not_found name = Inl (External ''cluster not found'')"

definition found :: "string \<Rightarrow> error + unit" where
  "found name = Inr ()"

definition ssh_ok :: "Machine \<Rightarrow> error + string" where
  "ssh_ok machine = Inr (IP (SpecMachine machine))"

definition ssh_unreachable :: "Machine \<Rightarrow> error + string" where
  "ssh_unreachable machine = Inl (External ''ssh: no credentials'')"

definition exits_1 :: "string \<Rightarrow> string \<times> string \<times> int \<times> error option" where
  "exits_1 cmd = ([], ''boom'', 1, None)"

definition never_ready :: "nat \<Rightarrow> Node" where
  "never_ready n = \<lparr>Conditions = [\<lparr>CondType = ''Ready'', CondStatus = ''False''\<rparr>]\<rparr>"

definition ready_at_third_poll :: "nat \<Rightarrow> Node" where
  "ready_at_third_poll n =
     \<lparr>Conditions = [\<lparr>CondType = ''MemoryPressure'', CondStatus = ''True''\<rparr>,
                    \<lparr>CondType = ''Ready'',
                     CondStatus = (if 2 \<le> n then ''True'' else ''False'')\<rparr>]\<rparr>"

definition polling_env :: "(nat \<Rightarrow> Node) \<Rightarrow> (string, unit, string, event list) provider_env" where
  "polling_env node = recording_env found ssh_ok exits_1 node 1"

definition post_hook_cluster :: Cluster where
  "post_hook_cluster =
     hosted_cluster\<lparr>Spec := (Spec hosted_cluster)
       \<lparr>Features := (Features (Spec hosted_cluster))
          \<lparr>Hooks := [HookPostInstall \<mapsto> ''/opt/post.sh --now'']\<rparr>\<rparr>\<rparr>"

definition advertise_then_real :: "ClusterAddress list" where
  "advertise_then_real =
     [\<lparr>Type = AddressAdvertise, Host = ''10.0.0.100'', Port = 6443\<rparr>,
      \<lparr>Type = AddressReal, Host = ''10.0.0.1'', Port = 6443\<rparr>]"

text \<open>
  The invariant of the collecting loop when every iteration has a loop variable of its
  own: each collected pointer refers to a location below the next fresh one, and that
  location holds an element of the list with the type its slice collects.
\<close>

definition pointers_ok :: "nat \<Rightarrow> ClusterAddress set \<Rightarrow> endpoint_locals \<Rightarrow> bool" where
  "pointers_ok k S st =
     ((\<forall>p \<in> set (advertise st). p < k \<and>
          (\<exists>a \<in> S. store st p = Some a \<and> Type a = AddressAdvertise))
      \<and> (\<forall>p \<in> set (internal st). p < k \<and>
          (\<exists>a \<in> S. store st p = Some a \<and> Type a = AddressReal)))"

section \<open>State derivation: the order of the steps\<close>

text \<open>The port 6443 as \<^verbatim>\<open>%d\<close> prints it.\<close>

lemma decimal_6443: "decimal 6443 = ''6443''"
  by (simp add: decimal.simps [of 6443] decimal.simps [of 644] decimal.simps [of 64]
        decimal.simps [of 6])

lemma fmt_d_6443: "fmt_d 6443 = ''6443''"
  by (simp add: fmt_d_def decimal_6443)

lemmas derive_defs =
  EnsureClusterComplete_def funcs_def completeK8sVersion_def completeNetworking_def
  completeDNS_def completeAddresses_def completeCredential_def cluster_AddAddress_def

lemma runSteps_append:
  "runSteps (fs @ gs) s =
     (case runSteps fs s of
        Ok s' \<Rightarrow> runSteps gs s'
      | Failed err s' \<Rightarrow> Failed err s'
      | Panic p \<Rightarrow> Panic p)"
  by (induction fs arbitrary: s) (auto split: outcome.splits)

lemma runSteps_aborts:
  assumes "runSteps fs s = Ok s1" and "f s1 = Failed err s2"
  shows "runSteps (fs @ f # gs) s = Failed err s2"
  using assms by (simp add: runSteps_append)

lemma completeK8sVersion_never_fails: "is_Ok (completeK8sVersion cluster)"
  by (simp add: completeK8sVersion_def)

text \<open>
  Claim C6. State derivation runs the five steps version, networking, DNS, addresses,
  credentials in that order, each on the record the step before it left. The first step
  that does not return \<^verbatim>\<open>nil\<close> ends the derivation: its error is the result, unchanged,
  with the record as that step left it, so no later step has run.
\<close>

theorem EnsureClusterComplete_steps_in_order:
  "EnsureClusterComplete env cluster =
     (case completeK8sVersion cluster of
        Failed err s \<Rightarrow> Failed err s
      | Panic p \<Rightarrow> Panic p
      | Ok c1 \<Rightarrow>
          (case completeNetworking env c1 of
             Failed err s \<Rightarrow> Failed err s
           | Panic p \<Rightarrow> Panic p
           | Ok c2 \<Rightarrow>
               (case completeDNS env c2 of
                  Failed err s \<Rightarrow> Failed err s
                | Panic p \<Rightarrow> Panic p
                | Ok c3 \<Rightarrow>
                    (case completeAddresses env c3 of
                       Failed err s \<Rightarrow> Failed err s
                     | Panic p \<Rightarrow> Panic p
                     | Ok c4 \<Rightarrow> completeCredential env c4))))"
  by (simp add: EnsureClusterComplete_def funcs_def split: outcome.splits)

text \<open>
  With a DNS step that fails, the derivation returns the DNS error; version and networking
  are written, and the address list and the credentials are as they were.
\<close>

theorem EnsureClusterComplete_steps_in_order_witness:
  "EnsureClusterComplete dns_failing_env demo_cluster =
     Failed (Wrap (External ''index out of range'') ''get DNS IP error'')
       (demo_cluster\<lparr>Status := \<lparr>StatusVersion = ''v1.18.2'',
           StatusServiceCIDR = ''10.0.240.0/20'', NodeCIDRMaskSize = 26,
           DNSIP = [], Addresses = []\<rparr>\<rparr>)"
  unfolding EnsureClusterComplete_steps_in_order
  by (simp add: completeK8sVersion_def completeNetworking_def completeDNS_def
        dns_failing_env_def demo_env_def demo_cluster_def)

section \<open>State derivation: networking\<close>

text \<open>
  Claim C9. With a declared service CIDR (and max-pods-per-node set) the networking step
  asks only \<^verbatim>\<open>GetNodeCIDRMaskSize\<close>, with the cluster CIDR and max-pods-per-node, and
  writes the declared CIDR and the mask size; the helper that derives a service CIDR plays
  no part. Without a declared service CIDR (and both capacities set) it asks
  \<^verbatim>\<open>GetServiceCIDRAndNodeCIDRMaskSize\<close> with the cluster CIDR, max-services and
  max-pods-per-node and writes both results. An error of the helper is returned, wrapped,
  and whenever the step returns an error the record is the one it was given.
\<close>

theorem completeNetworking_derivation:
  "(ServiceCIDR (Spec c) = Some s \<longrightarrow> MaxNodePodNum (Properties (Spec c)) = Some pods \<longrightarrow>
      completeNetworking env c =
        (case GetNodeCIDRMaskSize env (ClusterCIDR (Spec c)) pods of
           Inl err \<Rightarrow> Failed (Wrap err ''GetNodeCIDRMaskSize error'') c
         | Inr maskSize \<Rightarrow>
             Ok (c\<lparr>Status := (Status c)
                   \<lparr>StatusServiceCIDR := s, NodeCIDRMaskSize := maskSize\<rparr>\<rparr>))
      \<and> completeNetworking (env\<lparr>GetServiceCIDRAndNodeCIDRMaskSize := g\<rparr>) c =
          completeNetworking env c)
   \<and> (ServiceCIDR (Spec c) = None \<longrightarrow>
        MaxClusterServiceNum (Properties (Spec c)) = Some services \<longrightarrow>
        MaxNodePodNum (Properties (Spec c)) = Some pods \<longrightarrow>
      completeNetworking env c =
        (case GetServiceCIDRAndNodeCIDRMaskSize env (ClusterCIDR (Spec c)) services pods of
           Inl err \<Rightarrow> Failed (Wrap err ''GetServiceCIDRAndNodeCIDRMaskSize error'') c
         | Inr (cidr, maskSize) \<Rightarrow>
             Ok (c\<lparr>Status := (Status c)
                   \<lparr>StatusServiceCIDR := cidr, NodeCIDRMaskSize := maskSize\<rparr>\<rparr>)))
   \<and> (\<forall>err c'. completeNetworking env c = Failed err c' \<longrightarrow> c' = c)"
  by (auto simp: completeNetworking_def split: option.splits sum.splits prod.splits)

theorem completeNetworking_derivation_witness:
  "ServiceCIDR (Spec explicit_cidr_cluster) = Some ''172.16.0.0/16''
   \<and> MaxNodePodNum (Properties (Spec explicit_cidr_cluster)) = Some 64
   \<and> completeNetworking (demo_env ''tokenA'') explicit_cidr_cluster =
       Ok (explicit_cidr_cluster\<lparr>Status := (Status explicit_cidr_cluster)
             \<lparr>StatusServiceCIDR := ''172.16.0.0/16'', NodeCIDRMaskSize := 26\<rparr>\<rparr>)
   \<and> ServiceCIDR (Spec demo_cluster) = None
   \<and> MaxClusterServiceNum (Properties (Spec demo_cluster)) = Some 4096
   \<and> completeNetworking (demo_env ''tokenA'') demo_cluster =
       Ok (demo_cluster\<lparr>Status := (Status demo_cluster)
             \<lparr>StatusServiceCIDR := ''10.0.240.0/20'', NodeCIDRMaskSize := 26\<rparr>\<rparr>)
   \<and> completeNetworking cidr_failing_env demo_cluster =
       Failed (Wrap (External ''mask size too big'') ''GetServiceCIDRAndNodeCIDRMaskSize error'')
         demo_cluster"
proof -
  have e1: "ServiceCIDR (Spec explicit_cidr_cluster) = Some ''172.16.0.0/16''"
    and e2: "MaxNodePodNum (Properties (Spec explicit_cidr_cluster)) = Some 64"
    by (simp_all add: explicit_cidr_cluster_def demo_cluster_def)
  have d1: "ServiceCIDR (Spec demo_cluster) = None"
    and d2: "MaxClusterServiceNum (Properties (Spec demo_cluster)) = Some 4096"
    and d3: "MaxNodePodNum (Properties (Spec demo_cluster)) = Some 64"
    by (simp_all add: demo_cluster_def)
  have explicit: "completeNetworking (demo_env ''tokenA'') explicit_cidr_cluster =
       Ok (explicit_cidr_cluster\<lparr>Status := (Status explicit_cidr_cluster)
             \<lparr>StatusServiceCIDR := ''172.16.0.0/16'', NodeCIDRMaskSize := 26\<rparr>\<rparr>)"
    using completeNetworking_derivation
      [where c = explicit_cidr_cluster and env = "demo_env ''tokenA''"
         and s = "''172.16.0.0/16''" and pods = 64] e1 e2
    by (simp add: demo_env_def)
  have derived: "completeNetworking (demo_env ''tokenA'') demo_cluster =
       Ok (demo_cluster\<lparr>Status := (Status demo_cluster)
             \<lparr>StatusServiceCIDR := ''10.0.240.0/20'', NodeCIDRMaskSize := 26\<rparr>\<rparr>)"
    using completeNetworking_derivation
      [where c = demo_cluster and env = "demo_env ''tokenA''"
         and services = 4096 and pods = 64] d1 d2 d3
    by (simp add: demo_env_def)
  have failed: "completeNetworking cidr_failing_env demo_cluster =
       Failed (Wrap (External ''mask size too big'') ''GetServiceCIDRAndNodeCIDRMaskSize error'')
         demo_cluster"
    using completeNetworking_derivation
      [where c = demo_cluster and env = cidr_failing_env
         and services = 4096 and pods = 64] d1 d2 d3
    by (simp add: cidr_failing_env_def demo_env_def)
  show ?thesis using e1 e2 d1 d2 explicit derived failed by simp
qed

section \<open>State derivation: addresses\<close>

lemma addMachines_fold:
  "addMachines env ms c =
     c\<lparr>Status := (Status c)\<lparr>Addresses :=
         foldl (register env) (Addresses (Status c))
           (map (\<lambda>m. \<lparr>Type = AddressReal, Host = IP m, Port = 6443\<rparr>) ms)\<rparr>\<rparr>"
  by (induction ms arbitrary: c) (simp_all add: cluster_AddAddress_def register_def)

lemma completeAddresses_fold:
  "completeAddresses env c =
     Ok (c\<lparr>Status := (Status c)\<lparr>Addresses :=
           foldl (register env) (Addresses (Status c))
             (realAddresses c @ advertiseAddresses c)\<rparr>\<rparr>)"
  by (simp add: completeAddresses_def addMachines_fold realAddresses_def
        advertiseAddresses_def cluster_AddAddress_def register_def Let_def
      split: option.splits)

lemma foldl_register_append:
  "AddAddress env = AddAddress_append \<Longrightarrow> foldl (register env) addresses new = addresses @ new"
  by (induction new arbitrary: addresses) (simp_all add: register_def AddAddress_append_def)

text \<open>
  When registering an address appends it, the address list after the step is the list
  before it, followed by the Real addresses and then the Advertise addresses.
\<close>

lemma completeAddresses_appends:
  assumes "AddAddress env = AddAddress_append"
  shows "completeAddresses env c =
           Ok (c\<lparr>Status := (Status c)\<lparr>Addresses :=
                 Addresses (Status c) @ realAddresses c @ advertiseAddresses c\<rparr>\<rparr>)"
  by (simp add: completeAddresses_fold foldl_register_append [OF assms])

lemma realAddresses_one_per_machine:
  "length (realAddresses c) = length (Machines (Spec c))
   \<and> (\<forall>a \<in> set (realAddresses c). Type a = AddressReal \<and> Port a = 6443)"
  by (auto simp: realAddresses_def)

lemma advertiseAddresses_no_HA:
  "HA (Features (Spec c)) = None \<Longrightarrow> advertiseAddresses c = []"
  by (simp add: advertiseAddresses_def)

text \<open>
  Claim C8. The address step always succeeds, changes nothing but the address list, and
  makes exactly these calls of \<^verbatim>\<open>AddAddress\<close>, in this order: one Real address at port
  6443 for every declared machine, then, when HA is configured, an Advertise address for
  the self-managed VIP at port 6443 if that mechanism is set and an Advertise address for
  the third-party VIP at its configured port if that one is set. With no HA configured no
  Advertise address is registered.
\<close>

theorem completeAddresses_registers:
  "completeAddresses env c =
     Ok (c\<lparr>Status := (Status c)\<lparr>Addresses :=
           foldl (register env) (Addresses (Status c))
             (map (\<lambda>m. \<lparr>Type = AddressReal, Host = IP m, Port = 6443\<rparr>) (Machines (Spec c))
              @ (case HA (Features (Spec c)) of
                   None \<Rightarrow> []
                 | Some ha \<Rightarrow>
                     (case DKEHA ha of
                        None \<Rightarrow> []
                      | Some dke \<Rightarrow>
                          [\<lparr>Type = AddressAdvertise, Host = DKE_VIP dke, Port = 6443\<rparr>])
                     @ (case ThirdPartyHA ha of
                          None \<Rightarrow> []
                        | Some tp \<Rightarrow>
                            [\<lparr>Type = AddressAdvertise, Host = VIP tp, Port = VPort tp\<rparr>])))\<rparr>\<rparr>)"
  using completeAddresses_fold [of env c]
  by (simp add: realAddresses_def advertiseAddresses_def)

theorem completeAddresses_registers_witness:
  "completeAddresses (demo_env ''tokenA'') demo_cluster =
     Ok (demo_cluster\<lparr>Status := (Status demo_cluster)\<lparr>Addresses :=
           [\<lparr>Type = AddressReal, Host = ''10.1.0.1'', Port = 6443\<rparr>,
            \<lparr>Type = AddressReal, Host = ''10.1.0.2'', Port = 6443\<rparr>,
            \<lparr>Type = AddressReal, Host = ''10.1.0.3'', Port = 6443\<rparr>]\<rparr>\<rparr>)
   \<and> completeAddresses (demo_env ''tokenA'') ha_cluster =
     Ok (ha_cluster\<lparr>Status := (Status ha_cluster)\<lparr>Addresses :=
           [\<lparr>Type = AddressReal, Host = ''10.1.0.1'', Port = 6443\<rparr>,
            \<lparr>Type = AddressReal, Host = ''10.1.0.2'', Port = 6443\<rparr>,
            \<lparr>Type = AddressReal, Host = ''10.1.0.3'', Port = 6443\<rparr>,
            \<lparr>Type = AddressAdvertise, Host = ''10.1.0.100'', Port = 6443\<rparr>,
            \<lparr>Type = AddressAdvertise, Host = ''10.9.9.9'', Port = 443\<rparr>]\<rparr>\<rparr>)"
  unfolding completeAddresses_registers
  by (simp add: demo_env_def demo_cluster_def ha_cluster_def register_def AddAddress_append_def)

section \<open>State derivation: credentials\<close>

lemma completeCredential_token:
  "left_state (completeCredential env c) = Some s \<Longrightarrow>
     Token (Credential s) = Some (ksuid_New env)"
  by (auto simp: completeCredential_def Let_def split: sum.splits)

lemma completeCredential_never_panics: "left_state (completeCredential env c) \<noteq> None"
  by (auto simp: completeCredential_def Let_def split: sum.splits)

lemma EnsureClusterComplete_Ok_last:
  "EnsureClusterComplete env c = Ok c' \<Longrightarrow> \<exists>c4. completeCredential env c4 = Ok c'"
  by (auto simp: EnsureClusterComplete_def funcs_def split: outcome.splits)

text \<open>
  Claim C1 does not hold of the code: the credential step has no check for an existing
  token. The record \<open>derived_cluster\<close> is what one successful derivation of
  \<open>demo_cluster\<close> leaves, with the token \<open>tokenA\<close>; completing it again, with a generator
  that has moved on to \<open>tokenB\<close>, succeeds and leaves the token \<open>tokenB\<close>.
\<close>

theorem token_regenerated_counterexample:
  "EnsureClusterComplete (demo_env ''tokenA'') demo_cluster = Ok derived_cluster
   \<and> Token (Credential derived_cluster) = Some ''tokenA''
   \<and> is_Ok (EnsureClusterComplete (demo_env ''tokenB'') derived_cluster)
   \<and> map_option (\<lambda>c. Token (Credential c))
        (left_state (EnsureClusterComplete (demo_env ''tokenB'') derived_cluster))
       = Some (Some ''tokenB'')"
  by (simp add: derive_defs demo_env_def demo_cluster_def derived_cluster_def
        realAddresses_def AddAddress_append_def Let_def)

text \<open>
  Claim C1, amended. Every run of the completion step that returns success leaves as the
  cluster token the identifier generated in that run, whatever token the record held
  before: completion regenerates the token each time it is run.
\<close>

theorem completion_regenerates_token:
  assumes "EnsureClusterComplete env c = Ok c'"
  shows "Token (Credential c') = Some (ksuid_New env)"
proof -
  obtain c4 where "completeCredential env c4 = Ok c'"
    using assms EnsureClusterComplete_Ok_last by blast
  then have "left_state (completeCredential env c4) = Some c'" by simp
  then show ?thesis by (rule completeCredential_token)
qed

theorem completion_regenerates_token_witness:
  "EnsureClusterComplete (demo_env ''tokenB'') derived_cluster =
     Ok (derived_cluster\<lparr>Status := (Status derived_cluster)
            \<lparr>Addresses := realAddresses demo_cluster @ realAddresses demo_cluster\<rparr>,
          Credential := (Credential derived_cluster)\<lparr>Token := Some ''tokenB''\<rparr>\<rparr>)
   \<and> Token (Credential (derived_cluster\<lparr>Status := (Status derived_cluster)
            \<lparr>Addresses := realAddresses demo_cluster @ realAddresses demo_cluster\<rparr>,
          Credential := (Credential derived_cluster)\<lparr>Token := Some ''tokenB''\<rparr>\<rparr>))
       = Some (ksuid_New (demo_env ''tokenB''))"
proof -
  have run: "EnsureClusterComplete (demo_env ''tokenB'') derived_cluster =
     Ok (derived_cluster\<lparr>Status := (Status derived_cluster)
            \<lparr>Addresses := realAddresses demo_cluster @ realAddresses demo_cluster\<rparr>,
          Credential := (Credential derived_cluster)\<lparr>Token := Some ''tokenB''\<rparr>\<rparr>)"
    by (simp add: derive_defs demo_env_def demo_cluster_def derived_cluster_def
          realAddresses_def AddAddress_append_def Let_def)
  show ?thesis using run completion_regenerates_token [OF run] by simp
qed

section \<open>A target cluster whose client is not found\<close>

text \<open>
  Claim C3. When the lookup of the target cluster's client fails, the addon phases
  (kube-proxy and DNS, flannel, metrics server), the mark-node phase and the node-ready
  wait return success and leave the world as it was: nothing is built, reconciled,
  marked or polled, and the lookup's error is not returned.
\<close>

theorem lookup_failure_is_noop:
  assumes "ClusterManager_Get env (Name c) w = Inl err"
  shows "EnsureAddons env c w = Ok w \<and> EnsureFlannel env c w = Ok w
       \<and> EnsureMetricsServer env c w = Ok w
       \<and> EnsureMarkNode env machine c w = Ok w \<and> EnsureNodeReady env machine c w = Ok w"
  using assms
  by (simp add: EnsureAddons_def EnsureFlannel_def EnsureMetricsServer_def
        EnsureMarkNode_def EnsureNodeReady_def)

theorem lookup_failure_is_noop_witness:
  "ClusterManager_Get (recording_env not_found ssh_ok exits_1 never_ready 60)
      (Name hosted_cluster) [] = Inl (External ''cluster not found'')
   \<and> EnsureAddons (recording_env not_found ssh_ok exits_1 never_ready 60)
       hosted_cluster [] = Ok []
   \<and> EnsureFlannel (recording_env not_found ssh_ok exits_1 never_ready 60)
       hosted_cluster [] = Ok []
   \<and> EnsureMetricsServer (recording_env not_found ssh_ok exits_1 never_ready 60)
       hosted_cluster [] = Ok []
   \<and> EnsureMarkNode (recording_env not_found ssh_ok exits_1 never_ready 60)
       demo_machine hosted_cluster [] = Ok []
   \<and> EnsureNodeReady (recording_env not_found ssh_ok exits_1 never_ready 60)
       demo_machine hosted_cluster [] = Ok []"
proof -
  have h: "ClusterManager_Get (recording_env not_found ssh_ok exits_1 never_ready 60)
             (Name hosted_cluster) [] = Inl (External ''cluster not found'')"
    by (simp add: recording_env_def not_found_def)
  show ?thesis
    using h lookup_failure_is_noop [OF h, of demo_machine] by simp
qed

text \<open>With the client found, the same phases do change the world.\<close>

lemma lookup_success_reconciles:
  "EnsureAddons (recording_env found ssh_ok exits_1 never_ready 60) hosted_cluster [] =
     Ok [Reconciled ''kube-proxy'', Reconciled ''coredns'']
   \<and> EnsureMarkNode (recording_env found ssh_ok exits_1 never_ready 60)
       demo_machine hosted_cluster [] = Ok [Marked ''10.1.0.1'']"
  by (simp add: EnsureAddons_def EnsureMarkNode_def recording_env_def found_def
        demo_machine_def)

section \<open>The node-ready wait\<close>

lemma readyIn_iff:
  "readyIn cs = (\<exists>one \<in> set cs. CondType one = NodeReady \<and> CondStatus one = ConditionTrue)"
  by (induction cs) auto

lemma nodeReadyCondition_eq:
  "nodeReadyCondition env clusterCtx machine w =
     ((reportsReady env clusterCtx machine w, None), node_step env clusterCtx machine w)"
  by (simp add: nodeReadyCondition_def reportsReady_def node_step_def readyIn_iff
      split: prod.splits sum.splits)

lemma WaitFor_timeout:
  assumes "\<forall>i\<le>n. \<not> r ((step ^^ i) w)"
  shows "WaitFor n (\<lambda>w. ((r w, None), step w)) w = Failed ErrWaitTimeout ((step ^^ Suc n) w)"
  using assms
proof (induction n arbitrary: w)
  case 0
  then show ?case by simp
next
  case (Suc n)
  have now: "\<not> r w" using Suc.prems by (metis funpow_0 le0)
  have later: "\<forall>i\<le>n. \<not> r ((step ^^ i) (step w))"
  proof (intro allI impI)
    fix i assume "i \<le> n"
    then have "\<not> r ((step ^^ Suc i) w)" using Suc.prems by (metis Suc_le_mono)
    then show "\<not> r ((step ^^ i) (step w))" by (simp add: funpow_swap1)
  qed
  have "WaitFor (Suc n) (\<lambda>w. ((r w, None), step w)) w
          = WaitFor n (\<lambda>w. ((r w, None), step w)) (step w)"
    using now by simp
  also have "\<dots> = Failed ErrWaitTimeout ((step ^^ Suc n) (step w))"
    by (rule Suc.IH [OF later])
  finally show ?case by (simp add: funpow_swap1)
qed

lemma WaitFor_success:
  assumes "k \<le> n" and "\<forall>i<k. \<not> r ((step ^^ i) w)" and "r ((step ^^ k) w)"
  shows "WaitFor n (\<lambda>w. ((r w, None), step w)) w = Ok ((step ^^ Suc k) w)"
  using assms
proof (induction n arbitrary: w k)
  case 0
  then show ?case by simp
next
  case (Suc n)
  show ?case
  proof (cases k)
    case 0
    then show ?thesis using Suc.prems by simp
  next
    case (Suc j)
    have now: "\<not> r w" using Suc.prems(2) Suc by (metis funpow_0 zero_less_Suc)
    have before: "\<forall>i<j. \<not> r ((step ^^ i) (step w))"
    proof (intro allI impI)
      fix i assume "i < j"
      then have "\<not> r ((step ^^ Suc i) w)" using Suc.prems(2) Suc by (metis Suc_mono)
      then show "\<not> r ((step ^^ i) (step w))" by (simp add: funpow_swap1)
    qed
    have at: "r ((step ^^ j) (step w))"
      using Suc.prems(3) Suc by (simp add: funpow_swap1)
    have "j \<le> n" using Suc.prems(1) Suc by simp
    then have "WaitFor n (\<lambda>w. ((r w, None), step w)) (step w) = Ok ((step ^^ Suc j) (step w))"
      using before at by (rule Suc.IH)
    then show ?thesis using now Suc by (simp add: funpow_swap1)
  qed
qed

lemma PollImmediate_timeout:
  assumes "\<forall>i. \<not> r ((step ^^ i) w)"
  shows "PollImmediate ticks interval timeout (\<lambda>w. ((r w, None), step w)) w =
           Failed ErrWaitTimeout ((step ^^ (min ticks (timeout div interval) + 2)) w)"
proof -
  have now: "\<not> r w" using assms by (metis funpow_0)
  have later: "\<forall>i\<le>min ticks (timeout div interval). \<not> r ((step ^^ i) (step w))"
  proof (intro allI impI)
    fix i
    have "\<not> r ((step ^^ Suc i) w)" using assms by blast
    then show "\<not> r ((step ^^ i) (step w))" by (simp add: funpow_swap1)
  qed
  show ?thesis
    using now WaitFor_timeout [OF later]
    by (simp add: PollImmediate_def funpow_swap1)
qed

lemma PollImmediate_success:
  assumes "k \<le> min ticks (timeout div interval) + 1"
    and "\<forall>i<k. \<not> r ((step ^^ i) w)" and "r ((step ^^ k) w)"
  shows "PollImmediate ticks interval timeout (\<lambda>w. ((r w, None), step w)) w
           = Ok ((step ^^ Suc k) w)"
proof (cases k)
  case 0
  then show ?thesis using assms(3) by (simp add: PollImmediate_def)
next
  case (Suc j)
  have now: "\<not> r w" using assms(2) Suc by (metis funpow_0 zero_less_Suc)
  have before: "\<forall>i<j. \<not> r ((step ^^ i) (step w))"
  proof (intro allI impI)
    fix i assume "i < j"
    then have "\<not> r ((step ^^ Suc i) w)" using assms(2) Suc by (metis Suc_mono)
    then show "\<not> r ((step ^^ i) (step w))" by (simp add: funpow_swap1)
  qed
  have at: "r ((step ^^ j) (step w))" using assms(3) Suc by (simp add: funpow_swap1)
  have "j \<le> min ticks (timeout div interval)" using assms(1) Suc by simp
  then have "WaitFor (min ticks (timeout div interval)) (\<lambda>w. ((r w, None), step w)) (step w)
               = Ok ((step ^^ Suc j) (step w))"
    using before at by (rule WaitFor_success)
  then show ?thesis using now Suc by (simp add: PollImmediate_def funpow_swap1)
qed

lemma nodeReadyCondition_fun:
  "nodeReadyCondition env clusterCtx machine =
     (\<lambda>w. ((reportsReady env clusterCtx machine w, None), node_step env clusterCtx machine w))"
  by (rule ext) (rule nodeReadyCondition_eq)

text \<open>
  Claim C4. Once the target cluster's client is found, the node-ready wait polls the node
  at most \<open>min (delivered env) 60 + 2\<close> times, so at most 62 times: once at the start,
  once for each tick received out of the at most 300 div 5 = 60 ticks of the timeout, and
  once when the timeout closes the poller. If no poll ever reads a Ready condition that is
  True, the wait ends after exactly that many polls with \<^verbatim>\<open>ErrWaitTimeout\<close>; it cannot
  block forever. If the first poll that reads such a condition is number \<open>k\<close> of these
  (counting from 0), the wait returns success right after that poll, having polled
  \<open>k + 1\<close> times.
\<close>

theorem EnsureNodeReady_bounded_wait:
  assumes "ClusterManager_Get env (Name c) w = Inr clusterCtx"
  shows "((\<forall>i. \<not> reportsReady env clusterCtx machine (world_after env clusterCtx machine i w)) \<longrightarrow>
            EnsureNodeReady env machine c w =
              Failed ErrWaitTimeout
                (world_after env clusterCtx machine (min (delivered env) 60 + 2) w))
       \<and> (k \<le> min (delivered env) 60 + 1
            \<and> (\<forall>i<k. \<not> reportsReady env clusterCtx machine (world_after env clusterCtx machine i w))
            \<and> reportsReady env clusterCtx machine (world_after env clusterCtx machine k w) \<longrightarrow>
            EnsureNodeReady env machine c w = Ok (world_after env clusterCtx machine (Suc k) w))"
proof -
  have run: "EnsureNodeReady env machine c w =
               PollImmediate (delivered env) 5 300
                 (\<lambda>w. ((reportsReady env clusterCtx machine w, None),
                        node_step env clusterCtx machine w)) w"
    using assms by (simp add: EnsureNodeReady_def nodeReadyCondition_fun)
  have bound: "(300::nat) div 5 = 60" by simp
  have timeout: "EnsureNodeReady env machine c w =
      Failed ErrWaitTimeout (world_after env clusterCtx machine (min (delivered env) 60 + 2) w)"
    if "\<forall>i. \<not> reportsReady env clusterCtx machine (world_after env clusterCtx machine i w)"
    using PollImmediate_timeout [where r = "reportsReady env clusterCtx machine"
        and step = "node_step env clusterCtx machine" and w = w
        and ticks = "delivered env" and interval = 5 and timeout = 300] that
    unfolding run world_after_def bound by blast
  have success: "EnsureNodeReady env machine c w = Ok (world_after env clusterCtx machine (Suc k) w)"
    if "k \<le> min (delivered env) 60 + 1"
      and "\<forall>i<k. \<not> reportsReady env clusterCtx machine (world_after env clusterCtx machine i w)"
      and "reportsReady env clusterCtx machine (world_after env clusterCtx machine k w)"
    using PollImmediate_success [where r = "reportsReady env clusterCtx machine"
        and step = "node_step env clusterCtx machine" and w = w and k = k
        and ticks = "delivered env" and interval = 5 and timeout = 300] that
    unfolding run world_after_def bound by blast
  show ?thesis using timeout success by blast
qed

lemma polling_step:
  "node_step (polling_env node) () demo_machine w = w @ [Polled ''10.1.0.1'']"
  by (simp add: node_step_def polling_env_def recording_env_def demo_machine_def)

lemma polling_ready:
  "reportsReady (polling_env node) () demo_machine w =
     (\<exists>one \<in> set (Conditions (node (length w))). CondType one = ''Ready'' \<and> CondStatus one = ''True'')"
  by (simp add: reportsReady_def polling_env_def recording_env_def NodeReady_def ConditionTrue_def)

theorem EnsureNodeReady_bounded_wait_witness:
  "EnsureNodeReady (polling_env never_ready) demo_machine hosted_cluster [] =
     Failed ErrWaitTimeout [Polled ''10.1.0.1'', Polled ''10.1.0.1'', Polled ''10.1.0.1'']
   \<and> EnsureNodeReady (polling_env ready_at_third_poll) demo_machine hosted_cluster [] =
     Ok [Polled ''10.1.0.1'', Polled ''10.1.0.1'', Polled ''10.1.0.1'']"
proof -
  have lookup: "ClusterManager_Get (polling_env node) (Name hosted_cluster) [] = Inr ()" for node
    by (simp add: polling_env_def recording_env_def found_def)
  have ticks: "delivered (polling_env node) = 1" for node
    by (simp add: polling_env_def recording_env_def)
  have after: "world_after (polling_env node) () demo_machine i [] = replicate i (Polled ''10.1.0.1'')"
    for node i
    by (induction i) (simp_all add: world_after_def polling_step replicate_append_same)
  have never: "\<forall>i. \<not> reportsReady (polling_env never_ready) () demo_machine
                      (world_after (polling_env never_ready) () demo_machine i [])"
    by (simp add: polling_ready never_ready_def)
  have before: "\<forall>i<2. \<not> reportsReady (polling_env ready_at_third_poll) () demo_machine
                      (world_after (polling_env ready_at_third_poll) () demo_machine i [])"
    by (simp add: polling_ready after ready_at_third_poll_def)
  have at: "reportsReady (polling_env ready_at_third_poll) () demo_machine
              (world_after (polling_env ready_at_third_poll) () demo_machine 2 [])"
    by (simp add: polling_ready after ready_at_third_poll_def)
  have k: "(2::nat) \<le> min (delivered (polling_env ready_at_third_poll)) 60 + 1"
    by (simp add: ticks)
  have three: "replicate 3 x = [x, x, x]" for x :: event
    by (simp add: numeral_3_eq_3)
  show ?thesis
    using EnsureNodeReady_bounded_wait
        [OF lookup [of never_ready], where machine = demo_machine and k = 0] never
      EnsureNodeReady_bounded_wait
        [OF lookup [of ready_at_third_poll], where machine = demo_machine and k = 2] before at k
    by (simp add: after ticks three)
qed

section \<open>The node-join phase\<close>

text \<open>
  Claim C10 does not hold as stated: the index is not reached when the machine's remote
  handle cannot be obtained. For a cluster without a public alternative name and a
  machine whose \<^verbatim>\<open>SSH()\<close> fails, the phase returns that error; it does not panic.
\<close>

theorem join_empty_names_counterexample:
  "PublicAlternativeNames (Spec hosted_cluster) = []
   \<and> EnsureJoinNode (recording_env found ssh_unreachable exits_1 never_ready 60)
        demo_machine hosted_cluster [] = Failed (External ''ssh: no credentials'') []"
  by (simp add: EnsureJoinNode_def recording_env_def ssh_unreachable_def hosted_cluster_def)

text \<open>
  Claim C10, amended. The node-join phase indexes the first public alternative name
  without a check of the length, after it has obtained the machine's remote handle. For
  every cluster whose list of public alternative names is empty the phase panics with an
  index out of range once the handle is obtained, and returns the handle's error when it
  is not; in neither case is a join attempted.
\<close>

theorem EnsureJoinNode_empty_names:
  assumes "PublicAlternativeNames (Spec c) = []"
  shows "EnsureJoinNode env machine c w =
           (case SSH env machine of
              Inl err \<Rightarrow> Failed err w
            | Inr sh \<Rightarrow> Panic IndexOutOfRange)"
  using assms by (simp add: EnsureJoinNode_def split: sum.splits)

theorem EnsureJoinNode_empty_names_witness:
  "PublicAlternativeNames (Spec hosted_cluster) = []
   \<and> EnsureJoinNode (recording_env found ssh_ok exits_1 never_ready 60)
        demo_machine hosted_cluster [] = Panic IndexOutOfRange"
proof -
  have h: "PublicAlternativeNames (Spec hosted_cluster) = []"
    by (simp add: hosted_cluster_def)
  show ?thesis
    using h EnsureJoinNode_empty_names
      [OF h, of "recording_env found ssh_ok exits_1 never_ready 60" demo_machine "[]"]
    by (simp add: recording_env_def ssh_ok_def)
qed

text \<open>With a name to index, the join runs against the endpoint built from the first name.\<close>

lemma EnsureJoinNode_first_name:
  assumes "SSH env machine = Inr sh" and "PublicAlternativeNames (Spec c) = name0 # names"
  shows "EnsureJoinNode env machine c w =
           (case JoinNodePhase env sh c
                   (BuildApiserverEndpoint env name0 (GetBindPort env c)) False w of
              (Some err, w') \<Rightarrow> Failed err w'
            | (None, w') \<Rightarrow> Ok w')"
  using assms by (simp add: EnsureJoinNode_def)

section \<open>The node-level kubeconfig\<close>

text \<open>
  Claim C7 does not hold of the code: the kubeconfig is authenticated with the cluster
  token, not with the bootstrap token. For \<open>hosted_cluster\<close>, whose two tokens differ,
  the option handed to \<^verbatim>\<open>kubeconfig.InstallNode\<close> carries \<open>cluster-token\<close>.
\<close>

theorem kubeconfig_token_counterexample:
  "BootstrapToken (Credential hosted_cluster) = Some ''abcdef.0123456789abcdef''
   \<and> EnsureKubeconfig (recording_env found ssh_ok exits_1 never_ready 60)
        demo_machine hosted_cluster [] =
      Ok [Installed \<lparr>MasterEndpoint = ''https://10.9.9.9:6443'', ClusterName = ''demo'',
                     OptionCACert = [1, 2, 3], OptionToken = ''cluster-token''\<rparr>]"
  by (simp add: EnsureKubeconfig_def recording_env_def ssh_ok_def hosted_cluster_def
        fmt_d_6443)

text \<open>
  Claim C7, amended. For every machine whose remote handle is obtained, in a cluster that
  has third-party HA configured and a cluster token set, the node-level kubeconfig phase
  installs a kubeconfig built against the endpoint made of the third-party HA VIP and the
  cluster's bind port, under the cluster's name, with the cluster's CA certificate and
  the cluster token \<^verbatim>\<open>ClusterCredential.Token\<close>; its result is the result of the
  installation.
\<close>

theorem EnsureKubeconfig_option:
  assumes "SSH env machine = Inr machineSSH"
    and "HA (Features (Spec c)) = Some ha" and "ThirdPartyHA ha = Some tp"
    and "Token (Credential c) = Some token"
  shows "EnsureKubeconfig env machine c w =
           (case InstallNode env machineSSH
                   \<lparr>MasterEndpoint = BuildApiserverEndpoint env (VIP tp) (GetBindPort env c),
                    ClusterName = Name c,
                    OptionCACert = CACert (Credential c),
                    OptionToken = token\<rparr> w of
              (Some err, w') \<Rightarrow> Failed err w'
            | (None, w') \<Rightarrow> Ok w')"
  using assms by (simp add: EnsureKubeconfig_def)

theorem EnsureKubeconfig_option_witness:
  "SSH (recording_env found ssh_ok exits_1 never_ready 60) demo_machine = Inr ''10.1.0.1''
   \<and> HA (Features (Spec hosted_cluster)) =
       Some \<lparr>DKEHA = None, ThirdPartyHA = Some \<lparr>VIP = ''10.9.9.9'', VPort = 443\<rparr>\<rparr>
   \<and> Token (Credential hosted_cluster) = Some ''cluster-token''
   \<and> EnsureKubeconfig (recording_env found ssh_ok exits_1 never_ready 60)
        demo_machine hosted_cluster [] =
      Ok [Installed \<lparr>MasterEndpoint =
                       BuildApiserverEndpoint (recording_env found ssh_ok exits_1 never_ready 60)
                         ''10.9.9.9'' 6443,
                     ClusterName = ''demo'',
                     OptionCACert = [1, 2, 3], OptionToken = ''cluster-token''\<rparr>]"
proof -
  let ?env = "recording_env found ssh_ok exits_1 never_ready 60"
  have ssh: "SSH ?env demo_machine = Inr ''10.1.0.1''"
    by (simp add: recording_env_def ssh_ok_def demo_machine_def)
  have ha: "HA (Features (Spec hosted_cluster)) =
       Some \<lparr>DKEHA = None, ThirdPartyHA = Some \<lparr>VIP = ''10.9.9.9'', VPort = 443\<rparr>\<rparr>"
    by (simp add: hosted_cluster_def)
  have tp: "ThirdPartyHA \<lparr>DKEHA = None, ThirdPartyHA = Some \<lparr>VIP = ''10.9.9.9'', VPort = 443\<rparr>\<rparr>
              = Some \<lparr>VIP = ''10.9.9.9'', VPort = 443\<rparr>"
    by simp
  have token: "Token (Credential hosted_cluster) = Some ''cluster-token''"
    by (simp add: hosted_cluster_def)
  have port: "GetBindPort ?env hosted_cluster = 6443"
    and install: "InstallNode ?env sh opt w = (None, w @ [Installed opt])" for sh opt w
    by (simp_all add: recording_env_def)
  have fields: "Name hosted_cluster = ''demo''" "CACert (Credential hosted_cluster) = [1, 2, 3]"
    by (simp_all add: hosted_cluster_def)
  show ?thesis
    using ssh ha token EnsureKubeconfig_option [OF ssh ha tp token, of "[]"]
    by (simp add: port install fields)
qed

section \<open>The pre-install hook\<close>

lemma strings_Split_nonempty: "strings_Split s sep \<noteq> []"
  by (induction s) (auto split: list.splits)

text \<open>
  The two hook phases are the same function: both read the key \<^verbatim>\<open>HookPostInstall\<close>.
  What is configured under \<^verbatim>\<open>HookPreInstall\<close> has no influence on the pre-install
  phase.
\<close>

lemma EnsurePreInstallHook_is_post:
  "EnsurePreInstallHook env machine cluster w = EnsurePostInstallHook env machine cluster w"
  by (simp add: EnsurePreInstallHook_def EnsurePostInstallHook_def)

lemma EnsurePreInstallHook_ignores_pre_key:
  "EnsurePreInstallHook env machine
     (cluster\<lparr>Spec := (Spec cluster)\<lparr>Features := (Features (Spec cluster))
        \<lparr>Hooks := (Hooks (Features (Spec cluster)))(HookPreInstall := h)\<rparr>\<rparr>\<rparr>) w
   = EnsurePreInstallHook env machine cluster w"
  by (simp add: EnsurePreInstallHook_def hookOf_def)

text \<open>
  The hook that the phase does read behaves as the specification says of a hook: a
  transport error or an exit code other than 0 fails the phase with an error that holds
  the hook, the exit code, the captured standard error and the transport error.
\<close>

lemma runHook_failure:
  assumes "hook \<noteq> []" and "SSH env machine = Inr sh"
    and "strings_Split hook CHR '' '' = cmd # others"
    and "Exec env sh hook (snd (Exec env sh (''chmod +x '' @ cmd) w))
           = ((out, stderr, exit, err), w2)"
    and "err \<noteq> None \<or> exit \<noteq> 0"
  shows "runHook env machine hook w = Failed (ExecFailed hook exit stderr err) w2"
  using assms by (auto simp: runHook_def Let_def)

lemma runHook_no_hook: "runHook env machine [] w = Ok w"
  by (simp add: runHook_def)

lemma post_key_hook_runs_in_pre_phase:
  "EnsurePreInstallHook (recording_env found ssh_ok exits_1 never_ready 60)
        demo_machine post_hook_cluster [] =
     Failed (ExecFailed ''/opt/post.sh --now'' 1 ''boom'' None)
       [Executed ''chmod +x /opt/post.sh'', Executed ''/opt/post.sh --now'']"
  by (simp add: EnsurePreInstallHook_def runHook_def hookOf_def hosted_cluster_def
        post_hook_cluster_def recording_env_def ssh_ok_def exits_1_def)

text \<open>
  Claim C5 is what the phase is meant to do, and the code misses it: with the hook
  \<open>/opt/pre.sh --now\<close> configured as the pre-install hook, no post-install hook, and a
  host on which every command exits with code 1, the pre-install phase executes nothing
  and returns success.
\<close>

theorem pre_install_hook_never_runs:
  "hookOf (Hooks (Features (Spec hosted_cluster))) HookPreInstall = ''/opt/pre.sh --now''
   \<and> EnsurePreInstallHook (recording_env found ssh_ok exits_1 never_ready 60)
        demo_machine hosted_cluster [] = Ok []"
  by (simp add: EnsurePreInstallHook_def runHook_def hookOf_def hosted_cluster_def)

section \<open>Endpoint selection: what the collected pointers refer to\<close>

lemma pick_in_set: "ptrs \<noteq> [] \<Longrightarrow> pick Intn ptrs \<in> set ptrs"
  by (simp add: pick_def)

lemma collect_step_fields:
  "store (collect_step p x st) = (store st)(p \<mapsto> x)"
  "advertise (collect_step p x st) =
     advertise st @ (if Type x = AddressAdvertise then [p] else [])"
  "internal (collect_step p x st) =
     internal st @ (if Type x = AddressReal then [p] else [])"
  by (simp_all add: collect_step_def Let_def)

lemma collect_shared_store:
  "store (collect SharedLoopVar k xs st) =
     (if xs = [] then store st else (store st)(0 \<mapsto> last xs))"
  by (induction xs arbitrary: k st)
     (simp_all add: collect_step_fields loopvar_location_def)

lemma collect_shared_advertise:
  "advertise (collect SharedLoopVar k xs st) =
     advertise st @ replicate (length (filter (\<lambda>a. Type a = AddressAdvertise) xs)) 0"
  by (induction xs arbitrary: k st)
     (simp_all add: collect_step_fields loopvar_location_def)

lemma collect_shared_internal:
  "internal (collect SharedLoopVar k xs st) =
     internal st @ replicate (length (filter (\<lambda>a. Type a = AddressReal) xs)) 0"
  by (induction xs arbitrary: k st)
     (simp_all add: collect_step_fields loopvar_location_def)

lemmas collect_shared = collect_shared_store collect_shared_advertise collect_shared_internal

text \<open>
  In the code as written every collected pointer is location 0, and location 0 holds the
  last element of the list. So whenever the list has an Advertise or a Real address, the
  endpoint returned is that of the last address of the list, of whatever type it is, and
  the random choice has no effect.
\<close>

lemma GetMasterEndpoint_last:
  "GetMasterEndpoint Intn addresses =
     (if \<exists>a \<in> set addresses. Type a = AddressAdvertise \<or> Type a = AddressReal
      then Ok (endpoint_of (last addresses))
      else Failed NoAddress [])"
proof (cases "\<exists>a \<in> set addresses. Type a = AddressAdvertise \<or> Type a = AddressReal")
  case False
  then have "filter (\<lambda>a. Type a = AddressAdvertise) addresses = []"
    and "filter (\<lambda>a. Type a = AddressReal) addresses = []"
    by (auto simp: filter_empty_conv)
  then show ?thesis using False
    by (simp add: GetMasterEndpoint_def GetMasterEndpoint_in_def collect_shared Let_def)
next
  case True
  then have ne: "addresses \<noteq> []" by auto
  let ?adv = "replicate (length (filter (\<lambda>a. Type a = AddressAdvertise) addresses)) (0::nat)"
  let ?int = "replicate (length (filter (\<lambda>a. Type a = AddressReal) addresses)) (0::nat)"
  have some: "?adv \<noteq> [] \<or> ?int \<noteq> []"
    using True by (auto simp: filter_empty_conv)
  have adv0: "?adv \<noteq> [] \<Longrightarrow> pick Intn ?adv = 0"
    using pick_in_set [of ?adv Intn] by auto
  have int0: "?int \<noteq> [] \<Longrightarrow> pick Intn ?int = 0"
    using pick_in_set [of ?int Intn] by auto
  show ?thesis
    using True ne some adv0 int0
    by (auto simp: GetMasterEndpoint_def GetMasterEndpoint_in_def collect_shared Let_def)
qed

text \<open>
  Two parts of the specified behaviour survive the aliasing: no address at all is the
  error, and a list of Real addresses only yields the endpoint of one of them.
\<close>

lemma GetMasterEndpoint_empty: "GetMasterEndpoint Intn [] = Failed NoAddress []"
  by (simp add: GetMasterEndpoint_last)

lemma GetMasterEndpoint_only_real:
  assumes "addresses \<noteq> []" and "\<forall>a \<in> set addresses. Type a = AddressReal"
  shows "\<exists>a \<in> set addresses. GetMasterEndpoint Intn addresses = Ok (endpoint_of a)"
proof -
  have "last addresses \<in> set addresses" using assms(1) by simp
  moreover have "GetMasterEndpoint Intn addresses = Ok (endpoint_of (last addresses))"
    using assms calculation by (auto simp: GetMasterEndpoint_last)
  ultimately show ?thesis by blast
qed

text \<open>
  Claim C2 is what the function is meant to do, and the code misses it: with one
  Advertise address followed by one Real address, whatever the random generator returns,
  the endpoint selected is that of the Real address. The one pointer in \<open>advertise\<close>
  refers to the loop variable, which holds the last element when the loop is over.
\<close>

theorem GetMasterEndpoint_returns_real_address:
  "GetMasterEndpoint Intn advertise_then_real = Ok ''https://10.0.0.1:6443''"
  by (simp add: GetMasterEndpoint_def GetMasterEndpoint_in_def advertise_then_real_def
        collect_step_def loopvar_location_def pick_def endpoint_of_def fmt_d_6443 Let_def)

text \<open>
  The same happens on a list as the address step builds it when a machine is registered
  after the HA address: the machines first, the VIP, then the new machine.
\<close>

lemma GetMasterEndpoint_machine_added_later:
  "GetMasterEndpoint Intn
     [\<lparr>Type = AddressReal, Host = ''10.0.0.1'', Port = 6443\<rparr>,
      \<lparr>Type = AddressAdvertise, Host = ''10.0.0.100'', Port = 6443\<rparr>,
      \<lparr>Type = AddressReal, Host = ''10.0.0.2'', Port = 6443\<rparr>]
   = Ok ''https://10.0.0.2:6443''"
  by (simp add: GetMasterEndpoint_last endpoint_of_def fmt_d_6443)

text \<open>
  With a loop variable for every iteration the same body selects as the specification
  says: an Advertise address if there is one, otherwise a Real address if there is one,
  otherwise the error.
\<close>

lemma collect_step_pointers_ok:
  assumes "pointers_ok k S st" and "x \<in> S"
  shows "pointers_ok (Suc k) S (collect_step k x st)"
  using assms unfolding pointers_ok_def collect_step_def Let_def
  by (auto split: if_splits)

lemma collect_per_iteration_pointers_ok:
  assumes "pointers_ok k S st" and "set xs \<subseteq> S"
  shows "pointers_ok (k + length xs) S (collect PerIterationLoopVar k xs st)"
  using assms
proof (induction xs arbitrary: k st)
  case Nil
  then show ?case by simp
next
  case (Cons x xs)
  have "pointers_ok (Suc k) S (collect_step k x st)"
    using Cons.prems by (intro collect_step_pointers_ok) auto
  then have "pointers_ok (Suc k + length xs) S
               (collect PerIterationLoopVar (Suc k) xs (collect_step k x st))"
    using Cons.prems by (intro Cons.IH) auto
  then show ?case by (simp add: loopvar_location_def)
qed

lemma collect_advertise_nonempty:
  "(advertise (collect sem k xs st) \<noteq> []) =
     (advertise st \<noteq> [] \<or> (\<exists>a \<in> set xs. Type a = AddressAdvertise))"
  by (induction xs arbitrary: k st) (auto simp: collect_step_def Let_def)

lemma collect_internal_nonempty:
  "(internal (collect sem k xs st) \<noteq> []) =
     (internal st \<noteq> [] \<or> (\<exists>a \<in> set xs. Type a = AddressReal))"
  by (induction xs arbitrary: k st) (auto simp: collect_step_def Let_def)

lemma GetMasterEndpoint_per_iteration:
  "GetMasterEndpoint_in PerIterationLoopVar Intn addresses =
     Failed NoAddress [] \<and> (\<forall>a \<in> set addresses. Type a \<noteq> AddressAdvertise \<and> Type a \<noteq> AddressReal)
   \<or> (\<exists>a \<in> set addresses. Type a = AddressAdvertise
         \<and> GetMasterEndpoint_in PerIterationLoopVar Intn addresses = Ok (endpoint_of a))
   \<or> (\<forall>a \<in> set addresses. Type a \<noteq> AddressAdvertise)
      \<and> (\<exists>a \<in> set addresses. Type a = AddressReal
         \<and> GetMasterEndpoint_in PerIterationLoopVar Intn addresses = Ok (endpoint_of a))"
proof -
  let ?init = "\<lparr>store = Map.empty, advertise = [], internal = []\<rparr>"
  let ?st = "collect PerIterationLoopVar 0 addresses ?init"
  have "pointers_ok 0 (set addresses) ?init" by (simp add: pointers_ok_def)
  then have ok: "pointers_ok (0 + length addresses) (set addresses) ?st"
    by (rule collect_per_iteration_pointers_ok) simp
  have adv: "(advertise ?st \<noteq> []) = (\<exists>a \<in> set addresses. Type a = AddressAdvertise)"
    by (simp add: collect_advertise_nonempty)
  have int: "(internal ?st \<noteq> []) = (\<exists>a \<in> set addresses. Type a = AddressReal)"
    by (simp add: collect_internal_nonempty)
  consider (a) "advertise ?st \<noteq> []" | (r) "advertise ?st = []" "internal ?st \<noteq> []"
    | (n) "advertise ?st = []" "internal ?st = []" by blast
  then show ?thesis
  proof cases
    case a
    then have "pick Intn (advertise ?st) \<in> set (advertise ?st)" by (rule pick_in_set)
    then obtain x where "x \<in> set addresses" "store ?st (pick Intn (advertise ?st)) = Some x"
      "Type x = AddressAdvertise"
      using ok unfolding pointers_ok_def by blast
    then show ?thesis using a
      by (auto simp: GetMasterEndpoint_in_def Let_def)
  next
    case r
    then have "pick Intn (internal ?st) \<in> set (internal ?st)" by (intro pick_in_set)
    then obtain x where "x \<in> set addresses" "store ?st (pick Intn (internal ?st)) = Some x"
      "Type x = AddressReal"
      using ok unfolding pointers_ok_def by blast
    moreover have "\<forall>a \<in> set addresses. Type a \<noteq> AddressAdvertise" using r(1) adv by blast
    ultimately show ?thesis using r
      by (auto simp: GetMasterEndpoint_in_def Let_def)
  next
    case n
    have none: "\<forall>a \<in> set addresses. Type a \<noteq> AddressAdvertise \<and> Type a \<noteq> AddressReal"
      using n adv int by blast
    have "GetMasterEndpoint_in PerIterationLoopVar Intn addresses = Failed NoAddress []"
      using n by (simp add: GetMasterEndpoint_in_def Let_def)
    then show ?thesis using none by blast
  qed
qed

end
